theory Spec2Isabelle
  imports Complex_Main "HOL-Library.Sublist"
begin

section \<open>Data model\<close>

text \<open>
  The viewer (\<^verbatim>\<open>app.py\<close>) pages through a parquet file. The file object, the decoded
  tables and the session dictionary are modelled by records; the two library calls the
  page reader makes (\<^verbatim>\<open>ParquetFile.read\<close> and \<^verbatim>\<open>ParquetFile.read_row_group\<close>, each
  followed by \<^verbatim>\<open>to_pandas\<close>) are functions on that record that may raise.

  A cell is a string, an integer or the null value \<^verbatim>\<open>None\<close>. A column's pandas dtype
  is \<^verbatim>\<open>object\<close> for a string column and \<^verbatim>\<open>int64\<close> for an integer column. (A nullable
  integer column, which \<^verbatim>\<open>to_pandas\<close> turns into floating point, is outside the model.)
\<close>

type_synonym column = string

datatype cell = NoneV | StrV string | IntV int

datatype dtype = ObjectDtype | Int64Dtype

record row_group =
  rg_rows :: "cell list list"
  rg_readable :: bool

text \<open>
  \<open>rg_readable\<close> is false for a row group whose bytes cannot be decoded: reading it raises.
  \<open>strict_columns\<close> is the decoder's reaction to a requested column name that the schema
  does not have: it raises when true and drops the name when false. Rows are lists of
  cells in schema order.
\<close>

record ParquetFile =
  schema_arrow :: "(column \<times> dtype) list"
  row_groups :: "row_group list"
  strict_columns :: bool

record DataFrame =
  df_columns :: "(column \<times> dtype) list"
  df_rows :: "cell list list"

datatype py_exception =
    UnknownColumn column
  | DecodeFailure nat
  | IndexError
  | KeyError column
  | ZeroDivisionError
  | ReError string

text \<open>What a call does besides returning: decoder requests and displayed error messages.\<close>

datatype effect =
    ReadAll "column list option"
  | ReadRowGroup nat "column list option"
  | StError py_exception

record session_state =
  ss_parquet_file :: "ParquetFile option"
  ss_total_rows :: int
  ss_num_row_groups :: nat
  ss_columns :: "column list"
  ss_filter_column :: "column option"
  ss_filter_value :: string
  ss_page_size :: int
  ss_current_page :: int
  ss_selected_columns :: "column list option"
  ss_max_rows_full_load :: int

section \<open>Constants and session initialisation\<close>

definition DEFAULT_MAX_ROWS_FULL_LOAD :: int where
  "DEFAULT_MAX_ROWS_FULL_LOAD = 100000"

definition DEFAULT_PAGE_SIZE :: int where
  "DEFAULT_PAGE_SIZE = 25"

definition initialize_session_state :: session_state where
  "initialize_session_state =
     \<lparr> ss_parquet_file = None,
       ss_total_rows = 0,
       ss_num_row_groups = 0,
       ss_columns = [],
       ss_filter_column = None,
       ss_filter_value = [],
       ss_page_size = DEFAULT_PAGE_SIZE,
       ss_current_page = 1,
       ss_selected_columns = None,
       ss_max_rows_full_load = DEFAULT_MAX_ROWS_FULL_LOAD \<rparr>"

section \<open>The file object: metadata and decoding\<close>

definition rg_num_rows :: "row_group \<Rightarrow> int" where
  "rg_num_rows rg = int (length (rg_rows rg))"

definition num_rows :: "ParquetFile \<Rightarrow> int" where
  "num_rows f = sum_list (map rg_num_rows (row_groups f))"

definition num_row_groups :: "ParquetFile \<Rightarrow> nat" where
  "num_row_groups f = length (row_groups f)"

definition schema_names :: "ParquetFile \<Rightarrow> column list" where
  "schema_names f = map fst (schema_arrow f)"

definition check_columns :: "ParquetFile \<Rightarrow> column list option \<Rightarrow> py_exception option" where
  "check_columns f cols =
     (case cols of
        None \<Rightarrow> None
      | Some cs \<Rightarrow>
          (if strict_columns f
           then (case filter (\<lambda>c. c \<notin> set (schema_names f)) cs of
                   [] \<Rightarrow> None
                 | c # _ \<Rightarrow> Some (UnknownColumn c))
           else None))"

definition project_schema :: "(column \<times> dtype) list \<Rightarrow> column list option \<Rightarrow> (column \<times> dtype) list" where
  "project_schema sch cols =
     (case cols of
        None \<Rightarrow> sch
      | Some cs \<Rightarrow> concat (map (\<lambda>c. filter (\<lambda>fd. fst fd = c) sch) cs))"

definition project_row :: "(column \<times> dtype) list \<Rightarrow> column list option \<Rightarrow> cell list \<Rightarrow> cell list" where
  "project_row sch cols r =
     (case cols of
        None \<Rightarrow> r
      | Some cs \<Rightarrow> concat (map (\<lambda>c. map snd (filter (\<lambda>p. fst (fst p) = c) (zip sch r))) cs))"

definition decode_rows :: "ParquetFile \<Rightarrow> column list option \<Rightarrow> row_group \<Rightarrow> cell list list" where
  "decode_rows f cols rg = map (project_row (schema_arrow f) cols) (rg_rows rg)"

text \<open>\<^verbatim>\<open>parquet_file.read_row_group(rg_idx, columns=columns).to_pandas()\<close>\<close>

definition pf_read_row_group :: "ParquetFile \<Rightarrow> nat \<Rightarrow> column list option \<Rightarrow> py_exception + DataFrame" where
  "pf_read_row_group f rg_idx cols =
     (case check_columns f cols of
        Some e \<Rightarrow> Inl e
      | None \<Rightarrow>
          (if rg_idx < length (row_groups f)
           then (let rg = row_groups f ! rg_idx
                 in if rg_readable rg
                    then Inr \<lparr> df_columns = project_schema (schema_arrow f) cols,
                               df_rows = decode_rows f cols rg \<rparr>
                    else Inl (DecodeFailure rg_idx))
           else Inl IndexError))"

text \<open>\<^verbatim>\<open>parquet_file.read(columns=columns).to_pandas()\<close>: every row group is decoded.\<close>

definition pf_read :: "ParquetFile \<Rightarrow> column list option \<Rightarrow> py_exception + DataFrame" where
  "pf_read f cols =
     (case check_columns f cols of
        Some e \<Rightarrow> Inl e
      | None \<Rightarrow>
          (case filter (\<lambda>i. \<not> rg_readable (row_groups f ! i)) [0..<length (row_groups f)] of
             i # _ \<Rightarrow> Inl (DecodeFailure i)
           | [] \<Rightarrow> Inr \<lparr> df_columns = project_schema (schema_arrow f) cols,
                         df_rows = concat (map (decode_rows f cols) (row_groups f)) \<rparr>))"

section \<open>pandas operations\<close>

text \<open>\<^verbatim>\<open>pd.DataFrame()\<close>\<close>

definition pd_DataFrame :: DataFrame where
  "pd_DataFrame = \<lparr> df_columns = [], df_rows = [] \<rparr>"

text \<open>Python's slice \<^verbatim>\<open>xs[a:b]\<close>: a negative bound counts from the end, both are clamped.\<close>

definition py_slice :: "'a list \<Rightarrow> int \<Rightarrow> int \<Rightarrow> 'a list" where
  "py_slice xs a b =
     (let n = int (length xs);
          lo = (if a < 0 then max 0 (n + a) else min a n);
          hi = (if b < 0 then max 0 (n + b) else min b n)
      in take (nat (hi - lo)) (drop (nat lo) xs))"

text \<open>\<^verbatim>\<open>df.iloc[a:b]\<close>\<close>

definition iloc :: "DataFrame \<Rightarrow> int \<Rightarrow> int \<Rightarrow> DataFrame" where
  "iloc df a b = df \<lparr> df_rows := py_slice (df_rows df) a b \<rparr>"

text \<open>\<^verbatim>\<open>pd.concat(chunks, ignore_index=True)\<close> on a non-empty list of chunks with equal columns.\<close>

definition pd_concat :: "DataFrame \<Rightarrow> DataFrame list \<Rightarrow> DataFrame" where
  "pd_concat c cs = \<lparr> df_columns = df_columns c, df_rows = concat (map df_rows (c # cs)) \<rparr>"

section \<open>The page reader\<close>

text \<open>The first loop of the row-group branch: \<^verbatim>\<open>(start, end, rg_idx)\<close> for each row group.\<close>

fun offsets_from :: "row_group list \<Rightarrow> nat \<Rightarrow> int \<Rightarrow> (int \<times> int \<times> nat) list" where
  "offsets_from [] rg_idx current_offset = []"
| "offsets_from (rg # rgs) rg_idx current_offset =
     (current_offset, current_offset + rg_num_rows rg, rg_idx)
       # offsets_from rgs (Suc rg_idx) (current_offset + rg_num_rows rg)"

definition row_group_offsets :: "ParquetFile \<Rightarrow> (int \<times> int \<times> nat) list" where
  "row_group_offsets f = offsets_from (row_groups f) 0 0"

text \<open>
  The second loop: each overlapping row group is read and appended to \<^verbatim>\<open>chunks\<close>; an
  exception leaves the loop.
\<close>

fun read_chunks :: "ParquetFile \<Rightarrow> column list option \<Rightarrow> int \<Rightarrow> int \<Rightarrow> (int \<times> int \<times> nat) list
                      \<Rightarrow> effect list \<times> (py_exception + DataFrame list)" where
  "read_chunks f cols start_row end_row [] = ([], Inr [])"
| "read_chunks f cols start_row end_row ((rg_start, rg_end, rg_idx) # rest) =
     (if rg_end > start_row \<and> rg_start < end_row
      then (case pf_read_row_group f rg_idx cols of
              Inl e \<Rightarrow> ([ReadRowGroup rg_idx cols], Inl e)
            | Inr chunk \<Rightarrow>
                (case read_chunks f cols start_row end_row rest of
                   (tr, Inl e) \<Rightarrow> (ReadRowGroup rg_idx cols # tr, Inl e)
                 | (tr, Inr chunks) \<Rightarrow> (ReadRowGroup rg_idx cols # tr, Inr (chunk # chunks))))
      else read_chunks f cols start_row end_row rest)"

text \<open>\<^verbatim>\<open>start_row - row_group_offsets[0][0] if row_group_offsets else 0\<close>\<close>

definition page_start_of :: "(int \<times> int \<times> nat) list \<Rightarrow> int \<Rightarrow> int" where
  "page_start_of offsets start_row =
     (case offsets of [] \<Rightarrow> 0 | (rg_start, _) # _ \<Rightarrow> start_row - rg_start)"

text \<open>The body of the \<^verbatim>\<open>try\<close> block of \<^verbatim>\<open>read_page_efficiently\<close>.\<close>

definition read_page_body :: "session_state \<Rightarrow> ParquetFile \<Rightarrow> int \<Rightarrow> int \<Rightarrow> column list option
                               \<Rightarrow> effect list \<times> (py_exception + DataFrame)" where
  "read_page_body st f page page_size cols =
     (let total_rows = num_rows f;
          start_row = (page - 1) * page_size;
          end_row = min (start_row + page_size) total_rows
      in if total_rows \<le> ss_max_rows_full_load st
         then (case pf_read f cols of
                 Inl e \<Rightarrow> ([ReadAll cols], Inl e)
               | Inr df \<Rightarrow> ([ReadAll cols], Inr (iloc df start_row end_row)))
         else (let offsets = row_group_offsets f
               in case read_chunks f cols start_row end_row offsets of
                    (tr, Inl e) \<Rightarrow> (tr, Inl e)
                  | (tr, Inr []) \<Rightarrow> (tr, Inr pd_DataFrame)
                  | (tr, Inr (c # cs)) \<Rightarrow>
                      (let df = pd_concat c cs;
                           page_start = page_start_of offsets start_row
                       in (tr, Inr (iloc df page_start (page_start + page_size))))))"

text \<open>\<^verbatim>\<open>except Exception as e: st.error(...); return pd.DataFrame()\<close>\<close>

definition read_page_efficiently :: "session_state \<Rightarrow> ParquetFile \<Rightarrow> int \<Rightarrow> int \<Rightarrow> column list option
                               \<Rightarrow> effect list \<times> (py_exception + DataFrame)" where
  "read_page_efficiently st f page page_size cols =
     (case read_page_body st f page page_size cols of
        (tr, Inl e) \<Rightarrow> (tr @ [StError e], Inr pd_DataFrame)
      | (tr, Inr df) \<Rightarrow> (tr, Inr df))"

section \<open>Pagination of a decoded table\<close>

text \<open>\<^verbatim>\<open>max(1, (total_rows + page_size - 1) // page_size)\<close>; \<^verbatim>\<open>//\<close> raises on a zero divisor.\<close>

definition total_pages_of :: "int \<Rightarrow> int \<Rightarrow> py_exception + int" where
  "total_pages_of total_rows page_size =
     (if page_size = 0 then Inl ZeroDivisionError
      else Inr (max 1 ((total_rows + page_size - 1) div page_size)))"

definition paginate_dataframe :: "DataFrame \<Rightarrow> int \<Rightarrow> int \<Rightarrow> py_exception + DataFrame \<times> int" where
  "paginate_dataframe df page page_size =
     (let total_rows = int (length (df_rows df))
      in case total_pages_of total_rows page_size of
           Inl e \<Rightarrow> Inl e
         | Inr total_pages \<Rightarrow>
             (let clamped = max 1 (min page total_pages);
                  start_idx = (clamped - 1) * page_size;
                  end_idx = min (start_idx + page_size) total_rows
              in Inr (iloc df start_idx end_idx, total_pages)))"

section \<open>The filter\<close>

definition digit_char :: "nat \<Rightarrow> char" where
  "digit_char d = char_of (48 + d)"

function str_of_nat :: "nat \<Rightarrow> string" where
  "str_of_nat n = (if n < 10 then [digit_char n] else str_of_nat (n div 10) @ [digit_char (n mod 10)])"
  by pat_completeness auto
termination
  by (relation "measure id") auto

definition str_of_int :: "int \<Rightarrow> string" where
  "str_of_int i = (if i < 0 then CHR ''-'' # str_of_nat (nat (- i)) else str_of_nat (nat i))"

text \<open>
  One element of \<^verbatim>\<open>df[col].astype(str)\<close>: every value is replaced by its \<^verbatim>\<open>str\<close>,
  the null value included, which becomes the four-letter string \<^verbatim>\<open>None\<close>.
\<close>

fun astype_str :: "cell \<Rightarrow> string" where
  "astype_str NoneV = ''None''"
| "astype_str (StrV s) = s"
| "astype_str (IntV i) = str_of_int i"

text \<open>\<^verbatim>\<open>df[col]\<close>: the position of the column, if the table has it.\<close>

definition column_index :: "DataFrame \<Rightarrow> column \<Rightarrow> nat option" where
  "column_index df col =
     (case filter (\<lambda>i. fst (df_columns df ! i) = col) [0..<length (df_columns df)] of
        [] \<Rightarrow> None
      | i # _ \<Rightarrow> Some i)"

definition cell_at :: "cell list \<Rightarrow> nat \<Rightarrow> cell" where
  "cell_at r i = (if i < length r then r ! i else NoneV)"

text \<open>
  Lines 380 to 385 of \<^verbatim>\<open>render_data_tab\<close>. \<^verbatim>\<open>Series.str.contains(val, case=False, na=False)\<close>
  compiles \<^verbatim>\<open>val\<close> as a regular expression with \<^verbatim>\<open>re.IGNORECASE\<close> and searches each
  element; the regular-expression engine is the parameter \<open>re_compile\<close>, which returns the
  search predicate of a pattern or raises. The elements it searches are those of
  \<^verbatim>\<open>astype(str)\<close>, none of which is null, so \<^verbatim>\<open>na=False\<close> has nothing to act on.
\<close>

definition apply_filter :: "(string \<Rightarrow> py_exception + (string \<Rightarrow> bool)) \<Rightarrow> DataFrame \<Rightarrow> column \<Rightarrow> string
                             \<Rightarrow> py_exception + DataFrame" where
  "apply_filter re_compile df col val =
     (case column_index df col of
        None \<Rightarrow> Inl (KeyError col)
      | Some i \<Rightarrow>
          (if snd (df_columns df ! i) = ObjectDtype
           then (case re_compile val of
                   Inl e \<Rightarrow> Inl e
                 | Inr matches \<Rightarrow>
                     Inr (df \<lparr> df_rows := filter (\<lambda>r. matches (astype_str (cell_at r i))) (df_rows df) \<rparr>))
           else Inr (df \<lparr> df_rows := filter (\<lambda>r. astype_str (cell_at r i) = val) (df_rows df) \<rparr>)))"

text \<open>
  A regular-expression engine for patterns without metacharacters, on which a search is a
  case-insensitive substring test (ASCII letters). It rejects every other pattern.
\<close>

definition regex_special :: "char list" where
  "regex_special = ''.^$*+?{}[]|()'' @ [char_of (92 :: nat)]"

definition lower_char :: "char \<Rightarrow> char" where
  "lower_char c = (let n = (of_char c :: nat) in if 65 \<le> n \<and> n \<le> 90 then char_of (n + 32) else c)"

definition literal_engine :: "string \<Rightarrow> py_exception + (string \<Rightarrow> bool)" where
  "literal_engine pat =
     (if list_ex (\<lambda>c. c \<in> set regex_special) pat then Inl (ReError pat)
      else Inr (\<lambda>s. sublist (map lower_char pat) (map lower_char s)))"

section \<open>The sidebar\<close>

text \<open>
  The values the widgets of \<^verbatim>\<open>render_sidebar\<close> return in one run of the script: the
  uploaded file (if one is in the uploader and its metadata loads), the column
  multiselect, the filter column and text, the Clear Filter button and the number input
  of the full-load threshold.
\<close>

record sidebar_inputs =
  in_uploaded_file :: "ParquetFile option"
  in_selected_columns :: "column list"
  in_filter_column :: "column option"
  in_filter_value :: string
  in_clear_filter :: bool
  in_max_rows_full_load :: int

definition load_parquet_metadata :: "ParquetFile \<Rightarrow> ParquetFile \<times> int \<times> nat \<times> column list" where
  "load_parquet_metadata f = (f, num_rows f, num_row_groups f, schema_names f)"

text \<open>Python truthiness of an optional string: \<^verbatim>\<open>None\<close> and the empty string are false.\<close>

definition truthy :: "string option \<Rightarrow> bool" where
  "truthy x = (case x of None \<Rightarrow> False | Some s \<Rightarrow> s \<noteq> [])"

text \<open>
  \<open>render_sidebar\<close> returns the new session state and whether \<^verbatim>\<open>st.rerun()\<close> ended the
  run. The threshold is stored into the session on every run that reaches the settings.
\<close>

definition render_sidebar :: "session_state \<Rightarrow> sidebar_inputs \<Rightarrow> session_state \<times> bool" where
  "render_sidebar st inp =
     (let st1 = (case in_uploaded_file inp of
                   None \<Rightarrow> st
                 | Some uploaded \<Rightarrow>
                     (case load_parquet_metadata uploaded of
                        (pf, total_rows, n_row_groups, columns) \<Rightarrow>
                          st \<lparr> ss_parquet_file := Some pf,
                               ss_total_rows := total_rows,
                               ss_num_row_groups := n_row_groups,
                               ss_columns := columns \<rparr>))
      in case ss_parquet_file st1 of
           None \<Rightarrow> (st1, False)
         | Some _ \<Rightarrow>
             (let st2 = st1 \<lparr> ss_selected_columns :=
                                 (if in_selected_columns inp = [] then None
                                  else Some (in_selected_columns inp)) \<rparr>;
                  st3 = st2 \<lparr> ss_filter_column := in_filter_column inp \<rparr>;
                  st4 = (if truthy (in_filter_column inp)
                         then st3 \<lparr> ss_filter_value := in_filter_value inp \<rparr>
                         else st3 \<lparr> ss_filter_value := [] \<rparr>)
              in if in_clear_filter inp
                 then (st4 \<lparr> ss_filter_column := None, ss_filter_value := [], ss_current_page := 1 \<rparr>, True)
                 else (st4 \<lparr> ss_max_rows_full_load := in_max_rows_full_load inp \<rparr>, False)))"

section \<open>The data tab\<close>

text \<open>
  \<open>render_data_tab\<close> in a run in which neither page button is clicked. \<open>page_size\<close> is the
  value of the rows-per-page selectbox. The result is the table handed to
  \<^verbatim>\<open>st.dataframe\<close> and the session state, or the exception that leaves the function.
\<close>

definition filtered_view :: "(string \<Rightarrow> py_exception + (string \<Rightarrow> bool)) \<Rightarrow> session_state \<Rightarrow> ParquetFile
                             \<Rightarrow> column \<Rightarrow> string \<Rightarrow> int \<Rightarrow> int
                             \<Rightarrow> effect list \<times> (py_exception + DataFrame \<times> session_state)" where
  "filtered_view re_compile st f col val current_page page_size =
     (case pf_read f (ss_selected_columns st) of
        Inl e \<Rightarrow> ([ReadAll (ss_selected_columns st)], Inl e)
      | Inr df \<Rightarrow>
          (case apply_filter re_compile df col val of
             Inl e \<Rightarrow> ([ReadAll (ss_selected_columns st)], Inl e)
           | Inr filtered \<Rightarrow>
               (case paginate_dataframe filtered current_page page_size of
                  Inl e \<Rightarrow> ([ReadAll (ss_selected_columns st)], Inl e)
                | Inr (paginated_df, total_filtered_pages) \<Rightarrow>
                    ([ReadAll (ss_selected_columns st)],
                     Inr (paginated_df,
                          st \<lparr> ss_current_page := min current_page total_filtered_pages \<rparr>)))))"

definition unfiltered_view :: "session_state \<Rightarrow> ParquetFile \<Rightarrow> int \<Rightarrow> int
                             \<Rightarrow> effect list \<times> (py_exception + DataFrame \<times> session_state)" where
  "unfiltered_view st f current_page page_size =
     (case read_page_efficiently st f current_page page_size (ss_selected_columns st) of
        (tr, Inl e) \<Rightarrow> (tr, Inl e)
      | (tr, Inr df) \<Rightarrow> (tr, Inr (df, st)))"

definition render_data_tab :: "(string \<Rightarrow> py_exception + (string \<Rightarrow> bool)) \<Rightarrow> session_state \<Rightarrow> ParquetFile \<Rightarrow> int
                             \<Rightarrow> effect list \<times> (py_exception + DataFrame \<times> session_state)" where
  "render_data_tab re_compile st f page_size =
     (let st1 = st \<lparr> ss_page_size := page_size \<rparr>;
          total_rows = ss_total_rows st1
      in case total_pages_of total_rows page_size of
           Inl e \<Rightarrow> ([], Inl e)
         | Inr total_pages \<Rightarrow>
             (let current_page = max 1 (min (ss_current_page st1) total_pages)
              in case ss_filter_column st1 of
                   None \<Rightarrow> unfiltered_view st1 f current_page page_size
                 | Some col \<Rightarrow>
                     (if col \<noteq> [] \<and> ss_filter_value st1 \<noteq> []
                      then filtered_view re_compile st1 f col (ss_filter_value st1) current_page page_size
                      else unfiltered_view st1 f current_page page_size)))"

text \<open>
  One run of \<open>main\<close> on an initialised session: the sidebar, then the data tab of the
  loaded file unless the sidebar asked for a rerun or no file is loaded.
\<close>

definition main :: "(string \<Rightarrow> py_exception + (string \<Rightarrow> bool)) \<Rightarrow> session_state \<Rightarrow> sidebar_inputs \<Rightarrow> int
                     \<Rightarrow> effect list \<times> (py_exception + DataFrame option \<times> session_state)" where
  "main re_compile st inp page_size =
     (case render_sidebar st inp of
        (st1, True) \<Rightarrow> ([], Inr (None, st1))
      | (st1, False) \<Rightarrow>
          (case ss_parquet_file st1 of
             None \<Rightarrow> ([], Inr (None, st1))
           | Some f \<Rightarrow>
               (case render_data_tab re_compile st1 f page_size of
                  (tr, Inl e) \<Rightarrow> (tr, Inl e)
                | (tr, Inr (df, st2)) \<Rightarrow> (tr, Inr (Some df, st2)))))"

section \<open>Example files\<close>

text \<open>Rows \<open>a, \<dots>, b - 1\<close> of a one-column table whose cell is the row's own number.\<close>

definition numbered_rows :: "nat \<Rightarrow> nat \<Rightarrow> cell list list" where
  "numbered_rows a b = map (\<lambda>i. [IntV (int i)]) [a..<b]"

definition readable_group :: "cell list list \<Rightarrow> row_group" where
  "readable_group rows = \<lparr> rg_rows = rows, rg_readable = True \<rparr>"

definition id_file :: "row_group list \<Rightarrow> ParquetFile" where
  "id_file rgs = \<lparr> schema_arrow = [(''id'', Int64Dtype)], row_groups = rgs, strict_columns = True \<rparr>"

definition small_file :: ParquetFile where
  "small_file = id_file [readable_group (numbered_rows 0 4), readable_group (numbered_rows 4 9)]"

definition corrupt_file :: ParquetFile where
  "corrupt_file =
     id_file [readable_group (numbered_rows 0 4), \<lparr> rg_rows = numbered_rows 4 9, rg_readable = False \<rparr>]"

definition small_session :: session_state where
  "small_session = initialize_session_state \<lparr> ss_max_rows_full_load := 5 \<rparr>"

text \<open>
  Two row groups of 100000 rows each, and a session whose threshold has been raised to
  the largest value the settings allow.
\<close>

definition two_group_file :: ParquetFile where
  "two_group_file = id_file [readable_group (numbered_rows 0 100000), readable_group (numbered_rows 100000 200000)]"

definition full_load_session :: session_state where
  "full_load_session = initialize_session_state \<lparr> ss_max_rows_full_load := 1000000 \<rparr>"

section \<open>The row-group index in the specification's words\<close>

text \<open>
  The entries of an index that overlap the row range \<open>[start_row, end_row)\<close>, in the
  order of the index.
\<close>

definition locate :: "(int \<times> int \<times> nat) list \<Rightarrow> int \<Rightarrow> int \<Rightarrow> (int \<times> int \<times> nat) list" where
  "locate index start_row end_row =
     filter (\<lambda>(start_offset, end_offset, row_group_id). start_offset < end_row \<and> end_offset > start_row) index"

section \<open>Further example sessions and files\<close>


definition shifted_file :: ParquetFile where
  "shifted_file = id_file [readable_group (numbered_rows 0 500), readable_group (numbered_rows 500 200000)]"

definition gap_file :: ParquetFile where
  "gap_file = id_file [readable_group (numbered_rows 0 500), readable_group (numbered_rows 500 1200)]"

definition low_threshold_session :: session_state where
  "low_threshold_session = initialize_session_state \<lparr> ss_max_rows_full_load := 1000 \<rparr>"

definition names_file :: ParquetFile where
  "names_file =
     \<lparr> schema_arrow = [(''name'', ObjectDtype)],
       row_groups = [readable_group [[StrV ''Anna''], [NoneV], [StrV ''Bo'']]],
       strict_columns = True \<rparr>"

definition filter_session :: session_state where
  "filter_session =
     initialize_session_state \<lparr> ss_parquet_file := Some names_file, ss_total_rows := 3,
       ss_num_row_groups := 1, ss_columns := [''name''],
       ss_filter_column := Some ''name'', ss_filter_value := ''none'' \<rparr>"

definition threshold_file :: ParquetFile where
  "threshold_file = id_file [readable_group (numbered_rows 0 1000), readable_group (numbered_rows 1000 1500)]"

definition upload_inputs :: sidebar_inputs where
  "upload_inputs =
     \<lparr> in_uploaded_file = Some threshold_file, in_selected_columns = [], in_filter_column = None,
       in_filter_value = [], in_clear_filter = False, in_max_rows_full_load = 100000 \<rparr>"

definition opened_session :: session_state where
  "opened_session =
     initialize_session_state \<lparr> ss_parquet_file := Some threshold_file, ss_total_rows := 1500,
       ss_num_row_groups := 2, ss_columns := [''id''], ss_page_size := 25 \<rparr>"

section \<open>The page sequence of a file\<close>

text \<open>
  All rows of a file in physical order, the rows of one unfiltered page, and the pages
  \<open>1, \<dots>, total_page_count\<close> of a page size, one after the other.
\<close>

definition file_rows :: "ParquetFile \<Rightarrow> cell list list" where
  "file_rows f = concat (map rg_rows (row_groups f))"

definition page_rows :: "session_state \<Rightarrow> ParquetFile \<Rightarrow> int \<Rightarrow> int \<Rightarrow> cell list list" where
  "page_rows st f page_size page =
     (case snd (read_page_efficiently st f page page_size None) of
        Inr df \<Rightarrow> df_rows df
      | Inl e \<Rightarrow> [])"

definition concat_pages :: "session_state \<Rightarrow> ParquetFile \<Rightarrow> int \<Rightarrow> cell list list" where
  "concat_pages st f page_size =
     (case total_pages_of (num_rows f) page_size of
        Inl e \<Rightarrow> []
      | Inr total_page_count \<Rightarrow>
          concat (map (\<lambda>p. page_rows st f page_size (int p)) [1..<Suc (nat total_page_count)]))"

section \<open>Properties of the model\<close>

subsection \<open>Decoding and slicing\<close>

lemma project_row_None: "project_row sch None r = r"
  by (simp add: project_row_def)

lemma decode_rows_None: "decode_rows f None rg = rg_rows rg"
  unfolding decode_rows_def by (rule map_idI) (simp add: project_row_None)

lemma py_slice_nonneg:
  "0 \<le> a \<Longrightarrow> 0 \<le> b \<Longrightarrow> py_slice xs a b = take (nat b - nat a) (drop (nat a) xs)"
  by (auto simp: py_slice_def Let_def min_def nat_diff_distrib')

lemma rg_num_rows_nonneg: "0 \<le> rg_num_rows rg"
  by (simp add: rg_num_rows_def)

subsection \<open>The row-group loop\<close>

lemma read_chunks_Cons_fst:
  "fst (read_chunks f cols start_row end_row ((s, e, i) # rest)) =
     (if e > start_row \<and> s < end_row
      then (case pf_read_row_group f i cols of
              Inl ex \<Rightarrow> [ReadRowGroup i cols]
            | Inr chunk \<Rightarrow> ReadRowGroup i cols # fst (read_chunks f cols start_row end_row rest))
      else fst (read_chunks f cols start_row end_row rest))"
  by (simp split: sum.splits prod.splits)

lemma read_chunks_Cons_snd:
  "snd (read_chunks f cols start_row end_row ((s, e, i) # rest)) =
     (if e > start_row \<and> s < end_row
      then (case pf_read_row_group f i cols of
              Inl ex \<Rightarrow> Inl ex
            | Inr chunk \<Rightarrow>
                (case snd (read_chunks f cols start_row end_row rest) of
                   Inl ex \<Rightarrow> Inl ex
                 | Inr chunks \<Rightarrow> Inr (chunk # chunks)))
      else snd (read_chunks f cols start_row end_row rest))"
  by (simp split: sum.splits prod.splits)

lemma locate_Nil: "locate [] start_row end_row = []"
  by (simp add: locate_def)

lemma locate_Cons:
  "locate ((s, e, i) # rest) start_row end_row =
     (if s < end_row \<and> e > start_row then (s, e, i) # locate rest start_row end_row
      else locate rest start_row end_row)"
  by (simp add: locate_def)


lemma read_chunks_prefix:
  "prefix (fst (read_chunks f cols start_row end_row offsets))
          (map (\<lambda>(s, e, i). ReadRowGroup i cols) (locate offsets start_row end_row))"
proof (induction offsets)
  case Nil
  then show ?case by (simp add: locate_Nil)
next
  case (Cons x rest)
  obtain s e i where x: "x = (s, e, i)" by (cases x) auto
  from Cons show ?case
    unfolding x read_chunks_Cons_fst locate_Cons by (auto split: sum.splits)
qed

lemma read_chunks_complete:
  "snd (read_chunks f cols start_row end_row offsets) = Inr chunks \<Longrightarrow>
   fst (read_chunks f cols start_row end_row offsets)
     = map (\<lambda>(s, e, i). ReadRowGroup i cols) (locate offsets start_row end_row)"
proof (induction offsets arbitrary: chunks)
  case Nil
  then show ?case by (simp add: locate_Nil)
next
  case (Cons x rest)
  obtain s e i where x: "x = (s, e, i)" by (cases x) auto
  from Cons.prems Cons.IH show ?case
    unfolding x read_chunks_Cons_fst read_chunks_Cons_snd locate_Cons
    by (auto split: if_splits sum.splits)
qed

subsection \<open>The two branches of the page reader\<close>

lemma body_partial_fst:
  "\<not> num_rows f \<le> ss_max_rows_full_load st \<Longrightarrow>
   fst (read_page_body st f page page_size cols)
     = fst (read_chunks f cols ((page - 1) * page_size)
              (min ((page - 1) * page_size + page_size) (num_rows f)) (row_group_offsets f))"
  by (simp add: read_page_body_def Let_def split: prod.splits sum.splits list.splits)

lemma body_partial_snd:
  "\<not> num_rows f \<le> ss_max_rows_full_load st \<Longrightarrow>
   snd (read_page_body st f page page_size cols) = Inr df \<Longrightarrow>
   \<exists>chunks. snd (read_chunks f cols ((page - 1) * page_size)
              (min ((page - 1) * page_size + page_size) (num_rows f)) (row_group_offsets f)) = Inr chunks"
  by (auto simp add: read_page_body_def Let_def split: prod.splits sum.splits list.splits)

subsection \<open>The offset index\<close>

lemma offsets_from_ids:
  "map (\<lambda>(s, e, i). i) (offsets_from rgs k off) = [k..<k + length rgs]"
proof (induction rgs arbitrary: k off)
  case Nil
  then show ?case by simp
next
  case (Cons rg rgs)
  have "map (\<lambda>(s, e, i). i) (offsets_from (rg # rgs) k off) = k # [Suc k..<Suc k + length rgs]"
    by (simp add: Cons.IH)
  also have "\<dots> = k # [Suc k..<k + length (rg # rgs)]"
    by simp
  also have "\<dots> = [k..<k + length (rg # rgs)]"
    by (rule upt_conv_Cons[symmetric]) simp
  finally show ?case .
qed

lemma locate_ids_sorted:
  "sorted_wrt (<) (map (\<lambda>(s, e, i). i) (locate (offsets_from rgs k off) start_row end_row))"
proof -
  have "sorted_wrt (<) (map (\<lambda>(s, e, i). i) (offsets_from rgs k off))"
    by (simp add: offsets_from_ids)
  then have "sorted_wrt (\<lambda>x y. (case x of (s, e, i) \<Rightarrow> i) < (case y of (s, e, i) \<Rightarrow> i)) (offsets_from rgs k off)"
    by (simp add: sorted_wrt_map)
  then show ?thesis
    unfolding locate_def sorted_wrt_map by (rule sorted_wrt_filter)
qed

lemma offsets_from_bounds:
  "x \<in> set (offsets_from rgs k off) \<Longrightarrow> off \<le> fst x"
proof (induction rgs arbitrary: k off)
  case Nil
  then show ?case by simp
next
  case (Cons rg rgs)
  from Cons.prems show ?case
  proof (simp, elim disjE)
    assume "x = (off, off + rg_num_rows rg, k)"
    then show "off \<le> fst x" by simp
  next
    assume "x \<in> set (offsets_from rgs (Suc k) (off + rg_num_rows rg))"
    from Cons.IH[OF this] rg_num_rows_nonneg[of rg] show "off \<le> fst x" by linarith
  qed
qed

lemma offsets_from_cover:
  "off \<le> r \<Longrightarrow> r < off + sum_list (map rg_num_rows rgs) \<Longrightarrow>
   \<exists>!x. x \<in> set (offsets_from rgs k off) \<and> fst x \<le> r \<and> r < fst (snd x)"
proof (induction rgs arbitrary: k off)
  case Nil
  then show ?case by simp
next
  case (Cons rg rgs)
  show ?case
  proof (cases "r < off + rg_num_rows rg")
    case True
    have "\<And>y. y \<in> set (offsets_from rgs (Suc k) (off + rg_num_rows rg)) \<Longrightarrow> \<not> fst y \<le> r"
      using offsets_from_bounds True by fastforce
    with True Cons.prems(1) show ?thesis
      by (intro ex1I[of _ "(off, off + rg_num_rows rg, k)"]) auto
  next
    case False
    then have "off + rg_num_rows rg \<le> r" by simp
    moreover from Cons.prems(2) have "r < off + rg_num_rows rg + sum_list (map rg_num_rows rgs)"
      by simp
    ultimately have "\<exists>!x. x \<in> set (offsets_from rgs (Suc k) (off + rg_num_rows rg)) \<and> fst x \<le> r \<and> r < fst (snd x)"
      by (rule Cons.IH)
    with False show ?thesis by auto
  qed
qed

lemma locate_cover:
  assumes "0 \<le> r" "start_row \<le> r" "r < end_row" "end_row \<le> num_rows f"
  shows "\<exists>!x. x \<in> set (locate (row_group_offsets f) start_row end_row) \<and> fst x \<le> r \<and> r < fst (snd x)"
proof -
  from assms have "r < 0 + sum_list (map rg_num_rows (row_groups f))"
    by (simp add: num_rows_def)
  with assms(1) have ex: "\<exists>!x. x \<in> set (row_group_offsets f) \<and> fst x \<le> r \<and> r < fst (snd x)"
    unfolding row_group_offsets_def by (intro offsets_from_cover) simp_all
  have "\<And>x. x \<in> set (locate (row_group_offsets f) start_row end_row) \<and> fst x \<le> r \<and> r < fst (snd x)
          \<longleftrightarrow> x \<in> set (row_group_offsets f) \<and> fst x \<le> r \<and> r < fst (snd x)"
    using assms(2,3) by (auto simp: locate_def)
  with ex show ?thesis by simp
qed

subsection \<open>Page counts\<close>



lemma offsets_from_upper:
  "x \<in> set (offsets_from rgs k off) \<Longrightarrow> fst (snd x) \<le> off + sum_list (map rg_num_rows rgs)"
proof (induction rgs arbitrary: k off)
  case Nil
  then show ?case by simp
next
  case (Cons rg rgs)
  from Cons.prems show ?case
  proof (simp, elim disjE)
    assume "x = (off, off + rg_num_rows rg, k)"
    then show "fst (snd x) \<le> off + (rg_num_rows rg + sum_list (map rg_num_rows rgs))"
      using sum_list_nonneg[of "map rg_num_rows rgs"] rg_num_rows_nonneg by auto
  next
    assume "x \<in> set (offsets_from rgs (Suc k) (off + rg_num_rows rg))"
    from Cons.IH[OF this] show "fst (snd x) \<le> off + (rg_num_rows rg + sum_list (map rg_num_rows rgs))"
      by linarith
  qed
qed

lemma read_chunks_none:
  "(\<And>x. x \<in> set offsets \<Longrightarrow> \<not> fst (snd x) > start_row) \<Longrightarrow>
   read_chunks f cols start_row end_row offsets = ([], Inr [])"
proof (induction offsets)
  case Nil
  then show ?case by simp
next
  case (Cons x rest)
  obtain s e i where x: "x = (s, e, i)" by (cases x) auto
  from Cons.prems[of x] have "\<not> e > start_row" by (simp add: x)
  moreover from Cons have "read_chunks f cols start_row end_row rest = ([], Inr [])" by simp
  ultimately show ?case by (simp add: x)
qed


lemma body_full:
  "num_rows f \<le> ss_max_rows_full_load st \<Longrightarrow>
   read_page_body st f page page_size cols =
     ([ReadAll cols],
      map_sum id (\<lambda>df. iloc df ((page - 1) * page_size)
                           (min ((page - 1) * page_size + page_size) (num_rows f)))
              (pf_read f cols))"
  by (simp add: read_page_body_def Let_def split: sum.splits)

subsection \<open>Evaluation on the example files\<close>

lemma length_numbered_rows: "length (numbered_rows a b) = b - a"
  by (simp add: numbered_rows_def)

lemma numbered_rows_append: "a \<le> b \<Longrightarrow> b \<le> c \<Longrightarrow> numbered_rows a b @ numbered_rows b c = numbered_rows a c"
  unfolding numbered_rows_def map_append[symmetric]
  using upt_add_eq_append[of a b "c - b"] by simp

lemma numbered_rows_empty: "b \<le> a \<Longrightarrow> numbered_rows a b = []"
  by (simp add: numbered_rows_def)

lemma drop_numbered_rows: "drop n (numbered_rows a b) = numbered_rows (a + n) b"
  by (simp add: numbered_rows_def drop_map del: upt_rec_numeral)

lemma take_numbered_rows: "a + n \<le> b \<Longrightarrow> take n (numbered_rows a b) = numbered_rows a (a + n)"
  by (simp add: numbered_rows_def take_map del: upt_rec_numeral)

lemma two_group_num_rows: "num_rows two_group_file = 200000"
  by (simp add: two_group_file_def id_file_def readable_group_def num_rows_def rg_num_rows_def length_numbered_rows)

lemma two_group_offsets: "row_group_offsets two_group_file = [(0, 100000, 0), (100000, 200000, Suc 0)]"
  by (simp add: row_group_offsets_def two_group_file_def id_file_def rg_num_rows_def readable_group_def length_numbered_rows)

lemma two_group_read:
  "pf_read two_group_file None = Inr \<lparr>df_columns = [(''id'', Int64Dtype)], df_rows = numbered_rows 0 200000\<rparr>"
  by (simp add: pf_read_def check_columns_def two_group_file_def id_file_def readable_group_def
        decode_rows_None project_schema_def numbered_rows_append)

lemma two_group_read_1:
  "pf_read_row_group two_group_file (Suc 0) None
     = Inr \<lparr>df_columns = [(''id'', Int64Dtype)], df_rows = numbered_rows 100000 200000\<rparr>"
  by (simp add: pf_read_row_group_def check_columns_def two_group_file_def id_file_def readable_group_def
        decode_rows_None project_schema_def)

lemma small_num_rows: "num_rows small_file = 9"
  by (simp add: small_file_def id_file_def readable_group_def num_rows_def rg_num_rows_def length_numbered_rows)

lemma corrupt_num_rows: "num_rows corrupt_file = 9"
  by (simp add: corrupt_file_def id_file_def readable_group_def num_rows_def rg_num_rows_def length_numbered_rows)

lemma small_offsets: "row_group_offsets small_file = [(0, 4, 0), (4, 9, Suc 0)]"
  by (simp add: row_group_offsets_def small_file_def id_file_def rg_num_rows_def readable_group_def length_numbered_rows)


lemma small_read_0:
  "pf_read_row_group small_file 0 None
     = Inr \<lparr>df_columns = [(''id'', Int64Dtype)], df_rows = numbered_rows 0 4\<rparr>"
  by (simp add: pf_read_row_group_def check_columns_def small_file_def id_file_def readable_group_def
        decode_rows_None project_schema_def)

lemma small_read_1:
  "pf_read_row_group small_file (Suc 0) None
     = Inr \<lparr>df_columns = [(''id'', Int64Dtype)], df_rows = numbered_rows 4 9\<rparr>"
  by (simp add: pf_read_row_group_def check_columns_def small_file_def id_file_def readable_group_def
        decode_rows_None project_schema_def)

lemma corrupt_read: "pf_read corrupt_file None = Inl (DecodeFailure 1)"
  by (simp add: pf_read_def check_columns_def corrupt_file_def id_file_def readable_group_def)


lemma small_partial_page_2:
  "read_page_body small_session small_file 2 3 None
     = ([ReadRowGroup 0 None, ReadRowGroup 1 None],
        Inr \<lparr>df_columns = [(''id'', Int64Dtype)], df_rows = numbered_rows 3 6\<rparr>)"
  by (simp add: read_page_body_def small_session_def initialize_session_state_def
        small_num_rows small_offsets small_read_0 small_read_1 pd_concat_def page_start_of_def
        iloc_def py_slice_nonneg numbered_rows_append drop_numbered_rows take_numbered_rows
        length_numbered_rows)

lemma small_locate_2: "locate (row_group_offsets small_file) 3 6 = [(0, 4, 0), (4, 9, 1)]"
  by (simp add: small_offsets locate_def)

subsection \<open>The data tab\<close>



lemma total_pages_cover:
  assumes "0 < page_size" "total_pages_of total_rows page_size = Inr total_pages"
  shows "total_rows \<le> (total_pages - 1) * page_size + page_size"
proof -
  have "total_rows + page_size - 1 = (total_rows + page_size - 1) div page_size * page_size
          + (total_rows + page_size - 1) mod page_size"
    by simp
  moreover have "(total_rows + page_size - 1) mod page_size < page_size"
    using assms(1) by simp
  ultimately have "total_rows \<le> (total_rows + page_size - 1) div page_size * page_size"
    by linarith
  also have "\<dots> \<le> total_pages * page_size"
    using assms by (auto simp: total_pages_of_def split: if_splits intro!: mult_right_mono)
  finally show ?thesis by (simp add: algebra_simps)
qed






subsection \<open>Unknown columns\<close>



subsection \<open>Evaluation on the further example files\<close>

lemma shifted_num_rows: "num_rows shifted_file = 200000"
  by (simp add: shifted_file_def id_file_def readable_group_def num_rows_def rg_num_rows_def length_numbered_rows)

lemma shifted_offsets: "row_group_offsets shifted_file = [(0, 500, 0), (500, 200000, Suc 0)]"
  by (simp add: row_group_offsets_def shifted_file_def id_file_def rg_num_rows_def readable_group_def length_numbered_rows)

lemma shifted_read_1:
  "pf_read_row_group shifted_file (Suc 0) None
     = Inr \<lparr>df_columns = [(''id'', Int64Dtype)], df_rows = numbered_rows 500 200000\<rparr>"
  by (simp add: pf_read_row_group_def check_columns_def shifted_file_def id_file_def readable_group_def
        decode_rows_None project_schema_def)

lemma shifted_file_rows: "file_rows shifted_file = numbered_rows 0 200000"
  by (simp add: file_rows_def shifted_file_def id_file_def readable_group_def numbered_rows_append)

lemma gap_num_rows: "num_rows gap_file = 1200"
  by (simp add: gap_file_def id_file_def readable_group_def num_rows_def rg_num_rows_def length_numbered_rows)

lemma gap_offsets: "row_group_offsets gap_file = [(0, 500, 0), (500, 1200, Suc 0)]"
  by (simp add: row_group_offsets_def gap_file_def id_file_def rg_num_rows_def readable_group_def length_numbered_rows)

lemma gap_read_0:
  "pf_read_row_group gap_file 0 None
     = Inr \<lparr>df_columns = [(''id'', Int64Dtype)], df_rows = numbered_rows 0 500\<rparr>"
  by (simp add: pf_read_row_group_def check_columns_def gap_file_def id_file_def readable_group_def
        decode_rows_None project_schema_def)

lemma gap_read_1:
  "pf_read_row_group gap_file (Suc 0) None
     = Inr \<lparr>df_columns = [(''id'', Int64Dtype)], df_rows = numbered_rows 500 1200\<rparr>"
  by (simp add: pf_read_row_group_def check_columns_def gap_file_def id_file_def readable_group_def
        decode_rows_None project_schema_def)

lemma gap_file_rows: "file_rows gap_file = numbered_rows 0 1200"
  by (simp add: file_rows_def gap_file_def id_file_def readable_group_def numbered_rows_append)

lemmas gap_eval = read_page_efficiently_def read_page_body_def low_threshold_session_def
  initialize_session_state_def gap_num_rows gap_offsets gap_read_0 gap_read_1
  pd_concat_def page_start_of_def iloc_def py_slice_nonneg length_numbered_rows
  drop_numbered_rows take_numbered_rows numbered_rows_empty page_rows_def

lemma gap_page_1: "page_rows low_threshold_session gap_file 500 1 = numbered_rows 0 500"
  by (simp add: gap_eval)

lemma gap_page_2: "page_rows low_threshold_session gap_file 500 2 = numbered_rows 1000 1200"
  by (simp add: gap_eval)

lemma gap_page_3: "page_rows low_threshold_session gap_file 500 3 = []"
  by (simp add: gap_eval)

lemma gap_pages: "[Suc 0..<4] = [Suc 0, 2, 3]"
  by code_simp

lemma apply_filter_null_row:
  assumes "re_compile val = Inr matches" and "matches ''None''"
  shows "apply_filter re_compile \<lparr>df_columns = [(col, ObjectDtype)], df_rows = [[NoneV]]\<rparr> col val
           = Inr \<lparr>df_columns = [(col, ObjectDtype)], df_rows = [[NoneV]]\<rparr>"
  using assms by (simp add: apply_filter_def column_index_def cell_at_def)

lemma threshold_num_rows: "num_rows threshold_file = 1500"
  by (simp add: threshold_file_def id_file_def readable_group_def num_rows_def rg_num_rows_def length_numbered_rows)

lemma threshold_num_row_groups: "num_row_groups threshold_file = 2"
  by (simp add: threshold_file_def id_file_def num_row_groups_def)

lemma threshold_schema_names: "schema_names threshold_file = [''id'']"
  by (simp add: threshold_file_def id_file_def schema_names_def)

lemma threshold_offsets: "row_group_offsets threshold_file = [(0, 1000, 0), (1000, 1500, Suc 0)]"
  by (simp add: row_group_offsets_def threshold_file_def id_file_def rg_num_rows_def readable_group_def length_numbered_rows)

lemma threshold_read:
  "pf_read threshold_file None = Inr \<lparr>df_columns = [(''id'', Int64Dtype)], df_rows = numbered_rows 0 1500\<rparr>"
  by (simp add: pf_read_def check_columns_def threshold_file_def id_file_def readable_group_def
        decode_rows_None project_schema_def numbered_rows_append)

lemma threshold_read_0:
  "pf_read_row_group threshold_file 0 None
     = Inr \<lparr>df_columns = [(''id'', Int64Dtype)], df_rows = numbered_rows 0 1000\<rparr>"
  by (simp add: pf_read_row_group_def check_columns_def threshold_file_def id_file_def readable_group_def
        decode_rows_None project_schema_def)

lemma threshold_sidebar_upload:
  "render_sidebar initialize_session_state upload_inputs
     = (initialize_session_state \<lparr> ss_parquet_file := Some threshold_file, ss_total_rows := 1500,
          ss_num_row_groups := 2, ss_columns := [''id''] \<rparr>, False)"
  by (simp add: render_sidebar_def upload_inputs_def load_parquet_metadata_def threshold_num_rows
        threshold_num_row_groups threshold_schema_names truthy_def initialize_session_state_def
        DEFAULT_MAX_ROWS_FULL_LOAD_def)

lemma threshold_sidebar_change:
  "render_sidebar opened_session (upload_inputs \<lparr> in_max_rows_full_load := 1000 \<rparr>)
     = (opened_session \<lparr> ss_max_rows_full_load := 1000 \<rparr>, False)"
  by (simp add: render_sidebar_def upload_inputs_def load_parquet_metadata_def threshold_num_rows
        threshold_num_row_groups threshold_schema_names truthy_def opened_session_def
        initialize_session_state_def)

lemma threshold_sidebar_change_no_upload:
  "render_sidebar opened_session (upload_inputs \<lparr> in_uploaded_file := None, in_max_rows_full_load := 1000 \<rparr>)
     = (opened_session \<lparr> ss_max_rows_full_load := 1000 \<rparr>, False)"
  by (simp add: render_sidebar_def upload_inputs_def truthy_def opened_session_def
        initialize_session_state_def)

lemmas threshold_eval = render_data_tab_def unfiltered_view_def total_pages_of_def
  read_page_efficiently_def read_page_body_def threshold_num_rows threshold_offsets threshold_read
  threshold_read_0 pd_concat_def page_start_of_def iloc_def py_slice_nonneg length_numbered_rows
  drop_numbered_rows take_numbered_rows

lemma page_start_is_start_row:
  "row_groups f \<noteq> [] \<Longrightarrow> page_start_of (row_group_offsets f) start_row = start_row"
  by (cases "row_groups f") (simp_all add: page_start_of_def row_group_offsets_def)

subsection \<open>Page coverage of the whole-file branch\<close>

lemma pf_read_all_readable:
  assumes "list_all rg_readable (row_groups f)"
  shows "pf_read f None = Inr \<lparr>df_columns = schema_arrow f, df_rows = file_rows f\<rparr>"
proof -
  have "filter (\<lambda>i. \<not> rg_readable (row_groups f ! i)) [0..<length (row_groups f)] = []"
    using assms by (auto simp: filter_empty_conv list_all_iff)
  moreover have "decode_rows f None = rg_rows"
    by (rule ext) (rule decode_rows_None)
  ultimately show ?thesis
    by (simp add: pf_read_def check_columns_def project_schema_def file_rows_def)
qed

lemma length_file_rows: "int (length (file_rows f)) = num_rows f"
proof -
  have "\<And>rgs. int (length (concat (map rg_rows rgs))) = sum_list (map rg_num_rows rgs)"
  proof -
    fix rgs show "int (length (concat (map rg_rows rgs))) = sum_list (map rg_num_rows rgs)"
      by (induction rgs) (simp_all add: rg_num_rows_def)
  qed
  then show ?thesis by (simp add: file_rows_def num_rows_def)
qed

lemma page_slice_take_drop:
  assumes "0 \<le> a" "0 \<le> n" "int (length xs) = t"
  shows "py_slice xs a (min (a + n) t) = take (nat n) (drop (nat a) xs)"
proof -
  have "0 \<le> min (a + n) t" using assms by simp
  with assms(1) have "py_slice xs a (min (a + n) t) = take (nat (min (a + n) t) - nat a) (drop (nat a) xs)"
    by (rule py_slice_nonneg)
  also have "\<dots> = take (nat n) (drop (nat a) xs)"
  proof (cases "a + n \<le> t")
    case True
    with assms show ?thesis by (simp add: min_def nat_add_distrib)
  next
    case False
    with assms have "length (drop (nat a) xs) \<le> nat n" "length (drop (nat a) xs) \<le> nat t - nat a"
      by auto
    with False show ?thesis by (simp add: min_def)
  qed
  finally show ?thesis .
qed

lemma concat_slices:
  "concat (map (\<lambda>p. take m (drop ((p - 1) * m) xs)) [1..<Suc k]) = take (k * m) xs"
proof (induction k)
  case 0
  then show ?case by simp
next
  case (Suc k)
  have "take (k * m) xs @ take m (drop (k * m) xs) = take (k * m + m) xs"
    by (simp add: take_add)
  with Suc show ?case by (simp add: add.commute)
qed

lemma full_load_page_rows:
  assumes "list_all rg_readable (row_groups f)" "num_rows f \<le> ss_max_rows_full_load st"
    and "1 \<le> page" "0 < page_size"
  shows "page_rows st f page_size page
           = take (nat page_size) (drop (nat ((page - 1) * page_size)) (file_rows f))"
proof -
  from assms(3,4) have "0 \<le> (page - 1) * page_size" by simp
  moreover from assms(4) have "0 \<le> page_size" by simp
  ultimately have "py_slice (file_rows f) ((page - 1) * page_size)
       (min ((page - 1) * page_size + page_size) (num_rows f))
     = take (nat page_size) (drop (nat ((page - 1) * page_size)) (file_rows f))"
    using length_file_rows by (rule page_slice_take_drop)
  with assms(1,2) show ?thesis
    by (simp add: page_rows_def read_page_efficiently_def body_full pf_read_all_readable iloc_def)
qed

lemma full_load_page_coverage:
  assumes "list_all rg_readable (row_groups f)" "num_rows f \<le> ss_max_rows_full_load st"
    and "0 < page_size"
  shows "concat_pages st f page_size = file_rows f"
proof -
  define tp where "tp = max 1 ((num_rows f + page_size - 1) div page_size)"
  have tp: "total_pages_of (num_rows f) page_size = Inr tp"
    using assms(3) by (simp add: total_pages_of_def tp_def)
  have m: "map (\<lambda>p. page_rows st f page_size (int p)) [1..<Suc (nat tp)]
      = map (\<lambda>p. take (nat page_size) (drop ((p - 1) * nat page_size) (file_rows f))) [1..<Suc (nat tp)]"
  proof (rule map_cong[OF refl])
    fix p assume "p \<in> set [1..<Suc (nat tp)]"
    then have p: "1 \<le> int p" by auto
    then have "nat ((int p - 1) * page_size) = (p - 1) * nat page_size"
      using assms(3) by (simp add: nat_mult_distrib of_nat_diff)
    with full_load_page_rows[OF assms(1,2) p assms(3)]
    show "page_rows st f page_size (int p)
            = take (nat page_size) (drop ((p - 1) * nat page_size) (file_rows f))"
      by simp
  qed
  have "concat_pages st f page_size
      = concat (map (\<lambda>p. page_rows st f page_size (int p)) [1..<Suc (nat tp)])"
    by (simp only: concat_pages_def tp sum.case)
  also have "\<dots> = concat (map (\<lambda>p. take (nat page_size) (drop ((p - 1) * nat page_size) (file_rows f)))
                          [1..<Suc (nat tp)])"
    by (simp only: m)
  also have "\<dots> = take (nat tp * nat page_size) (file_rows f)"
    by (rule concat_slices)
  finally have "concat_pages st f page_size = take (nat tp * nat page_size) (file_rows f)" .
  moreover have "length (file_rows f) \<le> nat tp * nat page_size"
  proof -
    from total_pages_cover[OF assms(3) tp] have "num_rows f \<le> tp * page_size"
      by (simp add: algebra_simps)
    moreover have "0 \<le> tp" by (simp add: tp_def)
    ultimately have "int (length (file_rows f)) \<le> int (nat tp * nat page_size)"
      using assms(3) by (simp add: length_file_rows)
    then show ?thesis by linarith
  qed
  ultimately show ?thesis by simp
qed

section \<open>The claims\<close>

text \<open>
  Claim C1 (cross-strategy equivalence) fails on the row-group branch. The file
  \<open>two_group_file\<close> has two row groups of 100000 rows. Page 101 of size 1000 is rows
  100000 to 100999. With the threshold raised to 1000000 the whole file is decoded and the
  page holds those 1000 rows. With the default threshold of 100000 only row group 1 is
  decoded, and the slice of its 100000 rows starts at position 100000, the global row
  number, so the page is empty.
\<close>

theorem cross_strategy_mismatch:
  "read_page_efficiently full_load_session two_group_file 101 1000 None
     = ([ReadAll None], Inr \<lparr>df_columns = [(''id'', Int64Dtype)], df_rows = numbered_rows 100000 101000\<rparr>) \<and>
   read_page_efficiently initialize_session_state two_group_file 101 1000 None
     = ([ReadRowGroup 1 None], Inr \<lparr>df_columns = [(''id'', Int64Dtype)], df_rows = []\<rparr>) \<and>
   length (numbered_rows 100000 101000) = 1000"
proof (intro conjI)
  show "read_page_efficiently full_load_session two_group_file 101 1000 None
     = ([ReadAll None], Inr \<lparr>df_columns = [(''id'', Int64Dtype)], df_rows = numbered_rows 100000 101000\<rparr>)"
    by (simp add: read_page_efficiently_def read_page_body_def full_load_session_def initialize_session_state_def
          two_group_num_rows two_group_read iloc_def py_slice_nonneg length_numbered_rows
          drop_numbered_rows take_numbered_rows)
  show "read_page_efficiently initialize_session_state two_group_file 101 1000 None
     = ([ReadRowGroup 1 None], Inr \<lparr>df_columns = [(''id'', Int64Dtype)], df_rows = []\<rparr>)"
    by (simp add: read_page_efficiently_def read_page_body_def initialize_session_state_def
          DEFAULT_MAX_ROWS_FULL_LOAD_def two_group_num_rows two_group_offsets two_group_read_1
          pd_concat_def page_start_of_def iloc_def py_slice_nonneg length_numbered_rows
          drop_numbered_rows take_numbered_rows numbered_rows_empty)
  show "length (numbered_rows 100000 101000) = 1000"
    by (simp add: length_numbered_rows)
qed

text \<open>
  Claim C2 (local slice offset) fails. \<open>shifted_file\<close> has row groups of 500 and 199500
  rows. Page 2 of size 1000 is rows 1000 to 1999; only row group 1, which starts at row
  500, overlaps it. The slice offset the code applies is 1000, the start row minus the
  start offset of the first row group of the file, not 500, the start row minus the start
  offset of the first overlapping row group; the page returned is rows 1500 to 2499.
\<close>

theorem local_slice_offset_mismatch:
  "locate (row_group_offsets shifted_file) 1000 2000 = [(500, 200000, 1)] \<and>
   page_start_of (row_group_offsets shifted_file) 1000 = 1000 \<and>
   read_page_efficiently initialize_session_state shifted_file 2 1000 None
     = ([ReadRowGroup 1 None],
        Inr \<lparr>df_columns = [(''id'', Int64Dtype)], df_rows = numbered_rows 1500 2500\<rparr>) \<and>
   file_rows shifted_file = numbered_rows 0 200000"
proof (intro conjI)
  show "locate (row_group_offsets shifted_file) 1000 2000 = [(500, 200000, 1)]"
    by (simp add: shifted_offsets locate_def)
  show "page_start_of (row_group_offsets shifted_file) 1000 = 1000"
    by (simp add: shifted_offsets page_start_of_def)
  show "read_page_efficiently initialize_session_state shifted_file 2 1000 None
     = ([ReadRowGroup 1 None],
        Inr \<lparr>df_columns = [(''id'', Int64Dtype)], df_rows = numbered_rows 1500 2500\<rparr>)"
    by (simp add: read_page_efficiently_def read_page_body_def initialize_session_state_def
          DEFAULT_MAX_ROWS_FULL_LOAD_def shifted_num_rows shifted_offsets shifted_read_1
          pd_concat_def page_start_of_def iloc_def py_slice_nonneg length_numbered_rows
          drop_numbered_rows take_numbered_rows)
  show "file_rows shifted_file = numbered_rows 0 200000"
    by (rule shifted_file_rows)
qed

text \<open>
  Claim C3 (page coverage) fails on the row-group branch. \<open>gap_file\<close> has row groups of
  500 and 700 rows and the threshold is 1000. With page size 500 there are three pages;
  they hold rows 0 to 499, rows 1000 to 1199 and nothing: 700 rows instead of the file's
  1200, rows 500 to 999 being on no page.
\<close>

theorem page_coverage_gap:
  "total_pages_of (num_rows gap_file) 500 = Inr 3 \<and>
   concat_pages low_threshold_session gap_file 500 = numbered_rows 0 500 @ numbered_rows 1000 1200 \<and>
   file_rows gap_file = numbered_rows 0 1200 \<and>
   length (concat_pages low_threshold_session gap_file 500) = 700 \<and>
   length (file_rows gap_file) = 1200"
proof -
  have t: "total_pages_of (num_rows gap_file) 500 = Inr 3"
    by (simp add: total_pages_of_def gap_num_rows)
  have c: "concat_pages low_threshold_session gap_file 500 = numbered_rows 0 500 @ numbered_rows 1000 1200"
    by (simp add: concat_pages_def t gap_pages gap_page_1 gap_page_2 gap_page_3)
  show ?thesis
    by (simp add: t c gap_file_rows length_numbered_rows)
qed

text \<open>
  Claim C4 (row-group location). On the row-group branch the decoder requests of the
  \<^verbatim>\<open>try\<close> block are a prefix of the requests for the row groups that \<open>locate\<close>
  selects (those with start offset below \<open>end_row\<close> and end offset above \<open>start_row\<close>),
  and all of them when no exception leaves the block; the selected row-group ids are
  strictly ascending; and every row number of the file in \<open>[start_row, end_row)\<close> lies in
  the offset range of exactly one selected row group.
\<close>

theorem row_group_location:
  assumes "ss_max_rows_full_load st < num_rows f"
  shows "let start_row = (page - 1) * page_size;
             end_row = min (start_row + page_size) (num_rows f);
             selected = locate (row_group_offsets f) start_row end_row
         in prefix (fst (read_page_body st f page page_size cols))
                   (map (\<lambda>(s, e, i). ReadRowGroup i cols) selected) \<and>
            ((\<exists>df. snd (read_page_body st f page page_size cols) = Inr df) \<longrightarrow>
               fst (read_page_body st f page page_size cols)
                 = map (\<lambda>(s, e, i). ReadRowGroup i cols) selected) \<and>
            sorted_wrt (<) (map (\<lambda>(s, e, i). i) selected) \<and>
            (\<forall>r. 0 \<le> r \<and> start_row \<le> r \<and> r < end_row \<longrightarrow>
                 (\<exists>!x. x \<in> set selected \<and> fst x \<le> r \<and> r < fst (snd x)))"
proof -
  from assms have part: "\<not> num_rows f \<le> ss_max_rows_full_load st" by simp
  define start_row where "start_row = (page - 1) * page_size"
  define end_row where "end_row = min (start_row + page_size) (num_rows f)"
  define selected where "selected = locate (row_group_offsets f) start_row end_row"
  have fst_eq: "fst (read_page_body st f page page_size cols)
      = fst (read_chunks f cols start_row end_row (row_group_offsets f))"
    using body_partial_fst[OF part] by (simp add: start_row_def end_row_def)
  have 1: "prefix (fst (read_page_body st f page page_size cols))
                   (map (\<lambda>(s, e, i). ReadRowGroup i cols) selected)"
    unfolding fst_eq selected_def by (rule read_chunks_prefix)
  have 2: "(\<exists>df. snd (read_page_body st f page page_size cols) = Inr df) \<longrightarrow>
               fst (read_page_body st f page page_size cols)
                 = map (\<lambda>(s, e, i). ReadRowGroup i cols) selected"
  proof
    assume "\<exists>df. snd (read_page_body st f page page_size cols) = Inr df"
    then obtain df where "snd (read_page_body st f page page_size cols) = Inr df" ..
    from body_partial_snd[OF part this]
    obtain chunks where "snd (read_chunks f cols start_row end_row (row_group_offsets f)) = Inr chunks"
      by (auto simp: start_row_def end_row_def)
    then show "fst (read_page_body st f page page_size cols)
                 = map (\<lambda>(s, e, i). ReadRowGroup i cols) selected"
      unfolding fst_eq selected_def by (rule read_chunks_complete)
  qed
  have 3: "sorted_wrt (<) (map (\<lambda>(s, e, i). i) selected)"
    unfolding selected_def row_group_offsets_def by (rule locate_ids_sorted)
  have 4: "\<forall>r. 0 \<le> r \<and> start_row \<le> r \<and> r < end_row \<longrightarrow>
                 (\<exists>!x. x \<in> set selected \<and> fst x \<le> r \<and> r < fst (snd x))"
  proof (intro allI impI)
    fix r assume "0 \<le> r \<and> start_row \<le> r \<and> r < end_row"
    moreover have "end_row \<le> num_rows f" by (simp add: end_row_def)
    ultimately show "\<exists>!x. x \<in> set selected \<and> fst x \<le> r \<and> r < fst (snd x)"
      unfolding selected_def by (intro locate_cover) simp_all
  qed
  from 1 2 3 4 show ?thesis
    by (simp add: Let_def start_row_def end_row_def selected_def)
qed

text \<open>
  Witness of C4: page 2 of size 3 of \<open>small_file\<close> (row groups of 4 and 5 rows) with
  threshold 5; rows 3 to 5 need both row groups, and row 4 lies in the second only.
\<close>

theorem row_group_location_witness:
  "ss_max_rows_full_load small_session < num_rows small_file \<and>
   locate (row_group_offsets small_file) 3 6 = [(0, 4, 0), (4, 9, 1)] \<and>
   fst (read_page_body small_session small_file 2 3 None) = [ReadRowGroup 0 None, ReadRowGroup 1 None] \<and>
   sorted_wrt (<) [0, 1 :: nat] \<and>
   (\<exists>!x. x \<in> set [(0 :: int, 4 :: int, 0 :: nat), (4, 9, 1)] \<and> fst x \<le> 4 \<and> 4 < fst (snd x))"
proof -
  have h: "ss_max_rows_full_load small_session < num_rows small_file"
    by (simp add: small_session_def small_num_rows)
  have "\<exists>!x. x \<in> set (locate (row_group_offsets small_file) 3 6) \<and> fst x \<le> 4 \<and> 4 < fst (snd x)"
    using row_group_location[OF h, of 2 3 None]
    by (simp add: Let_def small_num_rows)
  with h show ?thesis
    by (simp add: small_locate_2 small_partial_page_2)
qed





text \<open>
  Claim C7 (filter matching rule) fails for null values. The column \<^verbatim>\<open>name\<close> of
  \<open>names_file\<close> is a string column with the rows \<^verbatim>\<open>Anna\<close>, null and \<^verbatim>\<open>Bo\<close>. The
  filter value \<^verbatim>\<open>none\<close> selects the null row, whose string form \<^verbatim>\<open>None\<close> contains it,
  and no other row.
\<close>

theorem null_row_matches_filter:
  "pf_read names_file None
     = Inr \<lparr>df_columns = [(''name'', ObjectDtype)], df_rows = [[StrV ''Anna''], [NoneV], [StrV ''Bo'']]\<rparr> \<and>
   apply_filter literal_engine
       \<lparr>df_columns = [(''name'', ObjectDtype)], df_rows = [[StrV ''Anna''], [NoneV], [StrV ''Bo'']]\<rparr>
       ''name'' ''none''
     = Inr \<lparr>df_columns = [(''name'', ObjectDtype)], df_rows = [[NoneV]]\<rparr> \<and>
   map_sum id fst (snd (render_data_tab literal_engine filter_session names_file 25))
     = Inr \<lparr>df_columns = [(''name'', ObjectDtype)], df_rows = [[NoneV]]\<rparr>"
  by code_simp




text \<open>
  Claim C9 (threshold frozen per session) fails. The first run uploads the 1500-row
  \<open>threshold_file\<close> with the default threshold and reads page 1 by a whole-file read.
  In the next run the threshold input is 1000 and the same page of the same open file is
  read by a row-group read, whether the file is still in the uploader or not.
\<close>

theorem threshold_change_switches_strategy:
  "main literal_engine initialize_session_state upload_inputs 25
     = ([ReadAll None],
        Inr (Some \<lparr>df_columns = [(''id'', Int64Dtype)], df_rows = numbered_rows 0 25\<rparr>, opened_session)) \<and>
   main literal_engine opened_session (upload_inputs \<lparr> in_max_rows_full_load := 1000 \<rparr>) 25
     = ([ReadRowGroup 0 None],
        Inr (Some \<lparr>df_columns = [(''id'', Int64Dtype)], df_rows = numbered_rows 0 25\<rparr>,
             opened_session \<lparr> ss_max_rows_full_load := 1000 \<rparr>)) \<and>
   main literal_engine opened_session
       (upload_inputs \<lparr> in_uploaded_file := None, in_max_rows_full_load := 1000 \<rparr>) 25
     = ([ReadRowGroup 0 None],
        Inr (Some \<lparr>df_columns = [(''id'', Int64Dtype)], df_rows = numbered_rows 0 25\<rparr>,
             opened_session \<lparr> ss_max_rows_full_load := 1000 \<rparr>))"
proof (intro conjI)
  show "main literal_engine initialize_session_state upload_inputs 25
     = ([ReadAll None],
        Inr (Some \<lparr>df_columns = [(''id'', Int64Dtype)], df_rows = numbered_rows 0 25\<rparr>, opened_session))"
    by (simp only: main_def threshold_sidebar_upload)
       (simp add: threshold_eval opened_session_def initialize_session_state_def
          DEFAULT_MAX_ROWS_FULL_LOAD_def)
  show "main literal_engine opened_session (upload_inputs \<lparr> in_max_rows_full_load := 1000 \<rparr>) 25
     = ([ReadRowGroup 0 None],
        Inr (Some \<lparr>df_columns = [(''id'', Int64Dtype)], df_rows = numbered_rows 0 25\<rparr>,
             opened_session \<lparr> ss_max_rows_full_load := 1000 \<rparr>))"
    by (simp only: main_def threshold_sidebar_change)
       (simp add: threshold_eval opened_session_def initialize_session_state_def)
  show "main literal_engine opened_session
       (upload_inputs \<lparr> in_uploaded_file := None, in_max_rows_full_load := 1000 \<rparr>) 25
     = ([ReadRowGroup 0 None],
        Inr (Some \<lparr>df_columns = [(''id'', Int64Dtype)], df_rows = numbered_rows 0 25\<rparr>,
             opened_session \<lparr> ss_max_rows_full_load := 1000 \<rparr>))"
    by (simp only: main_def threshold_sidebar_change_no_upload)
       (simp add: threshold_eval opened_session_def initialize_session_state_def)
qed

text \<open>
  Claim C10 (the page reader never raises). \<open>read_page_efficiently\<close> returns a table on
  every input; when the \<^verbatim>\<open>try\<close> block raises, the error is displayed and the result is
  \<^verbatim>\<open>pd.DataFrame()\<close>; and that is also the result, with nothing displayed, of the
  row-group branch for a page that starts at or beyond the end of the file.
\<close>

theorem read_page_efficiently_total:
  "(\<exists>df. snd (read_page_efficiently st f page page_size cols) = Inr df) \<and>
   (\<forall>e. snd (read_page_body st f page page_size cols) = Inl e \<longrightarrow>
        read_page_efficiently st f page page_size cols
          = (fst (read_page_body st f page page_size cols) @ [StError e], Inr pd_DataFrame)) \<and>
   (ss_max_rows_full_load st' < num_rows f' \<and> num_rows f' \<le> (page' - 1) * page_size' \<longrightarrow>
        read_page_efficiently st' f' page' page_size' cols' = ([], Inr pd_DataFrame))"
proof (intro conjI allI impI)
  show "\<exists>df. snd (read_page_efficiently st f page page_size cols) = Inr df"
    by (cases "read_page_body st f page page_size cols")
       (auto simp: read_page_efficiently_def split: sum.splits)
next
  fix e assume "snd (read_page_body st f page page_size cols) = Inl e"
  then show "read_page_efficiently st f page page_size cols
          = (fst (read_page_body st f page page_size cols) @ [StError e], Inr pd_DataFrame)"
    by (cases "read_page_body st f page page_size cols")
       (auto simp: read_page_efficiently_def)
next
  assume a: "ss_max_rows_full_load st' < num_rows f' \<and> num_rows f' \<le> (page' - 1) * page_size'"
  have "read_chunks f' cols' ((page' - 1) * page_size')
          (min ((page' - 1) * page_size' + page_size') (num_rows f')) (row_group_offsets f') = ([], Inr [])"
  proof (rule read_chunks_none)
    fix x assume "x \<in> set (row_group_offsets f')"
    then have "fst (snd x) \<le> num_rows f'"
      using offsets_from_upper[of x "row_groups f'" 0 0] by (simp add: row_group_offsets_def num_rows_def)
    with a show "\<not> (page' - 1) * page_size' < fst (snd x)" by linarith
  qed
  with a show "read_page_efficiently st' f' page' page_size' cols' = ([], Inr pd_DataFrame)"
    by (simp add: read_page_efficiently_def read_page_body_def Let_def)
qed

text \<open>
  Witness of C10: a whole-file read of \<open>corrupt_file\<close>, whose second row group cannot be
  decoded, and page 4 of size 3 of the 9-row \<open>small_file\<close> with threshold 5.
\<close>

theorem read_page_efficiently_total_witness:
  "snd (read_page_body initialize_session_state corrupt_file 1 3 None) = Inl (DecodeFailure 1) \<and>
   read_page_efficiently initialize_session_state corrupt_file 1 3 None
     = ([ReadAll None, StError (DecodeFailure 1)], Inr pd_DataFrame) \<and>
   ss_max_rows_full_load small_session < num_rows small_file \<and>
   num_rows small_file \<le> (4 - 1) * 3 \<and>
   read_page_efficiently small_session small_file 4 3 None = ([], Inr pd_DataFrame)"
proof -
  have body: "read_page_body initialize_session_state corrupt_file 1 3 None = ([ReadAll None], Inl (DecodeFailure 1))"
    by (simp add: read_page_body_def initialize_session_state_def DEFAULT_MAX_ROWS_FULL_LOAD_def
          corrupt_num_rows corrupt_read)
  have h: "ss_max_rows_full_load small_session < num_rows small_file \<and> num_rows small_file \<le> (4 - 1) * 3"
    by (simp add: small_session_def small_num_rows)
  from body h
    read_page_efficiently_total[where st = initialize_session_state and f = corrupt_file and page = 1
      and page_size = 3 and cols = None and st' = small_session and f' = small_file and page' = 4
      and page_size' = 3 and cols' = None]
  show ?thesis by simp
qed

end
